theory Spec2Isabelle
  imports Complex_Main "HOL-Library.Char_ord"
begin

section \<open>JSON values as the handlers read them\<close>

text \<open>
  A property of a JSON object is missing (\<open>undefined\<close> when read), \<open>null\<close>, or holds a
  value. The handlers tell the three apart: \<open>x !== undefined\<close>, \<open>new Date(null)\<close> and the
  truthiness tests all depend on which one it is.
\<close>

datatype 'a field = Absent | Null | Val 'a

text \<open>
  A timestamp is stored as a string. \<open>Iso t\<close> stands for a string that \<open>Date\<close> parses to
  the instant \<open>t\<close> (milliseconds since the epoch), as \<open>toISOString\<close> writes it;
  \<open>Other s\<close> for a string \<open>s\<close> that \<open>Date\<close> does not parse (an Invalid Date).
\<close>

datatype datestr = Iso int | Other string

text \<open>JavaScript truthiness of a property: the empty string and 0 are falsy.\<close>

fun truthy_str :: "string field \<Rightarrow> bool" where
  "truthy_str (Val s) = (s \<noteq> [])"
| "truthy_str Absent = False"
| "truthy_str Null = False"


fun truthy_date :: "datestr field \<Rightarrow> bool" where
  "truthy_date (Val (Iso t)) = True"
| "truthy_date (Val (Other s)) = (s \<noteq> [])"
| "truthy_date Absent = False"
| "truthy_date Null = False"

text \<open>\<open>x || d\<close> on a string and on a number property.\<close>

fun or_str :: "string field \<Rightarrow> string \<Rightarrow> string" where
  "or_str (Val s) d = (if s \<noteq> [] then s else d)"
| "or_str Absent d = d"
| "or_str Null d = d"

fun or_num :: "int field \<Rightarrow> int \<Rightarrow> int" where
  "or_num (Val n) d = (if n \<noteq> 0 then n else d)"
| "or_num Absent d = d"
| "or_num Null d = d"

text \<open>
  \<open>new Date(x).getTime()\<close>, with \<open>None\<close> for NaN: \<open>new Date(undefined)\<close> is an Invalid
  Date, \<open>new Date(null)\<close> is the epoch.
\<close>

fun date_of :: "datestr field \<Rightarrow> int option" where
  "date_of Absent = None"
| "date_of Null = Some 0"
| "date_of (Val (Iso t)) = Some t"
| "date_of (Val (Other s)) = None"

text \<open>\<open>new Date(x) < now\<close>: a comparison with NaN is false.\<close>

definition date_before :: "datestr field \<Rightarrow> int \<Rightarrow> bool" where
  "date_before x n = (case date_of x of None \<Rightarrow> False | Some t \<Rightarrow> t < n)"

text \<open>\<open>Math.ceil(a / b)\<close> for integers \<open>a\<close> and \<open>b > 0\<close>.\<close>

definition ceil_div :: "int \<Rightarrow> int \<Rightarrow> int" where
  "ceil_div a b = - ((- a) div b)"

definition MS_PER_DAY :: int where
  "MS_PER_DAY = 1000 * 60 * 60 * 24"

section \<open>Strings\<close>

text \<open>
  Strings are modelled over ASCII. \<open>trim\<close> removes the ASCII white space of
  \<open>String.prototype.trim\<close> (tab, line feed, vertical tab, form feed, carriage return,
  space) at both ends; \<open>toUpperCase\<close> maps a..z to A..Z.
\<close>

definition is_space :: "char \<Rightarrow> bool" where
  "is_space c = (c \<in> set [CHR 0x09, CHR 0x0A, CHR 0x0B, CHR 0x0C, CHR 0x0D, CHR 0x20])"

definition trim :: "string \<Rightarrow> string" where
  "trim s = rev (dropWhile is_space (rev (dropWhile is_space s)))"

definition toUpper_char :: "char \<Rightarrow> char" where
  "toUpper_char c =
     (if CHR ''a'' \<le> c \<and> c \<le> CHR ''z'' then char_of (of_char c - (32::nat)) else c)"

definition toUpperCase :: "string \<Rightarrow> string" where
  "toUpperCase s = map toUpper_char s"

text \<open>\<open>s.includes(sub)\<close>; the regular expressions of the source are alternatives of literals.\<close>

fun includes_str :: "string \<Rightarrow> string \<Rightarrow> bool" where
  "includes_str [] sub = (sub = [])"
| "includes_str (c # cs) sub = (take (length sub) (c # cs) = sub \<or> includes_str cs sub)"

text \<open>\<open>const normalize = k => k ? k.trim().toUpperCase() : ''\<close>\<close>

fun normalize :: "string field \<Rightarrow> string" where
  "normalize (Val k) = (if k \<noteq> [] then toUpperCase (trim k) else [])"
| "normalize Absent = []"
| "normalize Null = []"

text \<open>\<open>Array.prototype.findIndex\<close>: the first index whose element passes, \<open>None\<close> for -1.\<close>

fun findIndex :: "('a \<Rightarrow> bool) \<Rightarrow> 'a list \<Rightarrow> nat option" where
  "findIndex p [] = None"
| "findIndex p (x # xs) =
     (if p x then Some 0 else (case findIndex p xs of None \<Rightarrow> None | Some i \<Rightarrow> Some (Suc i)))"

definition simplifyUserAgent :: "string \<Rightarrow> string" where
  "simplifyUserAgent ua =
     (if includes_str ua ''iPhone'' \<or> includes_str ua ''iPad'' \<or> includes_str ua ''iPod'' then ''Apple Device''
      else if includes_str ua ''Android'' then ''Android Device''
      else if includes_str ua ''Windows'' then ''Windows PC''
      else if includes_str ua ''Mac'' then ''Mac Computer''
      else ''Unknown Device'')"

section \<open>License records, requests and responses\<close>

record license =
  key :: "string field"
  plan :: "string field"
  activated_on :: "datestr field"
  device_hash :: "string field"
  device_name :: "string field"
  deviceName :: "string field"
  expires_at :: "datestr field"
  duration_days :: "int field"
  processed_videos :: "int field"
  processedVideos :: "int field"

text \<open>
  The \<open>license\<close> object of a response body, which is also the snapshot the client keeps.
  A property the handler does not write is \<open>Absent\<close>; \<open>JSON.stringify\<close> drops an
  \<open>undefined\<close> property, so \<open>Absent\<close> also stands for a property written as \<open>undefined\<close>.
\<close>

record snapshot =
  key :: "string field"
  plan :: "string field"
  expiresAt :: "datestr field"
  activatedAt :: "datestr field"
  activated_on :: "datestr field"
  remainingDays :: "int field"
  processed_videos :: "int field"
  processedVideos :: "int field"
  device_name :: "string field"
  deviceName :: "string field"

text \<open>
  The session token is the base64 text of \<open>key:deviceId:Date.now()\<close>; the model keeps the
  three parts. A \<open>Success\<close> response sets the cookie \<open>flowtik_token\<close> to it.
\<close>

type_synonym token = "string field \<times> string field \<times> int"

text \<open>
  A response: the 405 answer, a body \<open>{valid: false, error}\<close> with its HTTP status (the
  error is \<open>Absent\<close> where the body has none), or \<open>{valid: true, license}\<close> with the
  cookie. Messages are display text and are left out.
\<close>

datatype response =
    MethodNotAllowed
  | Failure nat "string field"
  | Success snapshot token

record request =
  is_post :: bool
  licenseKey :: "string field"
  deviceId :: "string field"
  user_agent :: "string field"

text \<open>
  What a handler finds around it: whether the store credentials are configured, whether
  the read of the store and the write to it answer ok, and the clock. One request reads
  the clock once; a day has \<open>MS_PER_DAY\<close> milliseconds.
\<close>

record env =
  config_ok :: bool
  get_ok :: bool
  put_ok :: bool
  now :: int

text \<open>
  The document read from the store, after the handler's normalisation of its shape:
  a list of license objects, or a shape none of the branches accepts.
\<close>

datatype fetched = Malformed | Collection "license list"

section \<open>The License Authority: api/validate-license\<close>

text \<open>\<open>const isActivated = license.activated_on && license.activated_on !== null\<close>\<close>

definition isActivated :: "license \<Rightarrow> bool" where
  "isActivated l = truthy_date (license.activated_on l)"

text \<open>
  The first-use block. \<open>setDate(now.getDate() + duration_days)\<close> moves the date by
  \<open>duration_days\<close> whole days.
\<close>

definition activation :: "int \<Rightarrow> request \<Rightarrow> license \<Rightarrow> license" where
  "activation t req l =
     (let l1 = l\<lparr>license.activated_on := Val (Iso t),
                 device_hash := deviceId req,
                 license.device_name :=
                   Val (simplifyUserAgent (or_str (user_agent req) ''Unknown Device'')),
                 license.processed_videos := Val 0\<rparr>
      in case duration_days l1 of
           Val n \<Rightarrow> (if n \<noteq> 0 then l1\<lparr>expires_at := Val (Iso (t + n * MS_PER_DAY))\<rparr> else l1)
         | Absent \<Rightarrow> l1
         | Null \<Rightarrow> l1)"

text \<open>
  The handler returns its response and the collection it sends back to the store
  (\<open>None\<close>: no write is made).
\<close>

definition validate_license :: "env \<Rightarrow> request \<Rightarrow> fetched \<Rightarrow> response \<times> license list option" where
  "validate_license e req data =
     (if \<not> is_post req then (MethodNotAllowed, None)
      else if \<not> truthy_str (licenseKey req) \<or> \<not> truthy_str (deviceId req)
        then (Failure 400 (Val ''Missing license key or device ID''), None)
      else if \<not> config_ok e then (Failure 500 (Val ''Server configuration error''), None)
      else if \<not> get_ok e then (Failure 500 (Val ''network''), None)
      else case data of
        Malformed \<Rightarrow> (Failure 500 (Val ''server_error''), None)
      | Collection licenses \<Rightarrow>
         (let inputKey = normalize (licenseKey req) in
          case findIndex (\<lambda>l. normalize (license.key l) = inputKey) licenses of
            None \<Rightarrow> (Failure 200 (Val ''invalidLicense''), None)
          | Some licenseIndex \<Rightarrow>
             (let license0 = licenses ! licenseIndex;
                  license1 = (if \<not> isActivated license0 then activation (now e) req license0
                              else license0)
              in if truthy_str (device_hash license1) \<and> device_hash license1 \<noteq> deviceId req
                   then (Failure 200 (Val ''deviceMismatch''), None)
                 else if truthy_date (expires_at license1) \<and> date_before (expires_at license1) (now e)
                   then (Failure 200 (Val ''expired''), None)
                 else
                   (let license2 = license1\<lparr>license.processed_videos :=
                                      Val (or_num (license.processed_videos license1) 0 + 1)\<rparr>;
                        licenses2 = licenses[licenseIndex := license2]
                    in if \<not> put_ok e then (Failure 500 (Val ''network''), Some licenses2)
                       else
                         (Success
                            \<lparr>snapshot.key = license.key license2,
                             plan = Val (or_str (license.plan license2) ''Premium''),
                             expiresAt = expires_at license2,
                             activatedAt = license.activated_on license2,
                             activated_on = Absent,
                             remainingDays = Absent,
                             processed_videos = Val (or_num (license.processed_videos license2) 0),
                             processedVideos = Absent,
                             device_name =
                               Val (or_str (license.device_name license2) ''Device not specified''),
                             deviceName = Absent\<rparr>
                            (license.key license2, deviceId req, now e),
                          Some licenses2)))))"

section \<open>The License Authority: api/check-session\<close>

definition check_session :: "env \<Rightarrow> request \<Rightarrow> fetched \<Rightarrow> response \<times> license list option" where
  "check_session e req data =
     (if \<not> is_post req then (MethodNotAllowed, None)
      else if \<not> truthy_str (licenseKey req) \<or> \<not> truthy_str (deviceId req)
        then (Failure 400 (Val ''Missing license key or device ID''), None)
      else if \<not> config_ok e then (Failure 500 (Val ''Server configuration error''), None)
      else if \<not> get_ok e then (Failure 500 (Val ''network''), None)
      else case data of
        Malformed \<Rightarrow> (Failure 500 (Val ''server_error''), None)
      | Collection licenses \<Rightarrow>
         (let inputKey = normalize (licenseKey req) in
          case findIndex (\<lambda>l. normalize (license.key l) = inputKey) licenses of
            None \<Rightarrow> (Failure 200 (Val ''deleted''), None)
          | Some licenseIndex \<Rightarrow>
             (let license0 = licenses ! licenseIndex in
              if device_hash license0 \<noteq> deviceId req
                then (Failure 200 (Val ''deviceMismatch''), None)
              else if date_before (expires_at license0) (now e)
                then (Failure 200 (Val ''expired''), None)
              else
                (Success
                   \<lparr>snapshot.key = license.key license0,
                    plan = Val (or_str (license.plan license0) ''Premium''),
                    expiresAt = expires_at license0,
                    activatedAt = Absent,
                    activated_on = license.activated_on license0,
                    remainingDays =
                      (case date_of (expires_at license0) of
                         None \<Rightarrow> Null
                       | Some t \<Rightarrow> Val (ceil_div (t - now e) MS_PER_DAY)),
                    processed_videos =
                      Val (or_num (license.processed_videos license0)
                             (or_num (license.processedVideos license0) 0)),
                    processedVideos = Absent,
                    device_name =
                      Val (or_str (license.device_name license0)
                             (or_str (license.deviceName license0) ''Device not specified'')),
                    deviceName = Absent\<rparr>
                   (license.key license0, deviceId req, now e),
                 None))))"

section \<open>The same two routes of the Express server\<close>

text \<open>
  The routes receive POST requests only. \<open>fetchLicenses\<close> throws when the credentials are
  missing or the read fails, which the route answers with \<open>server_error\<close>; a document of
  no accepted shape leaves the list empty. The answer of the write is not looked at.
\<close>

definition express_validate_license ::
    "env \<Rightarrow> request \<Rightarrow> fetched \<Rightarrow> response \<times> license list option" where
  "express_validate_license e req data =
     (if \<not> truthy_str (licenseKey req) \<or> \<not> truthy_str (deviceId req)
        then (Failure 400 (Val ''Missing Data''), None)
      else if \<not> config_ok e \<or> \<not> get_ok e then (Failure 500 (Val ''server_error''), None)
      else
        (let licenses = (case data of Malformed \<Rightarrow> [] | Collection ls \<Rightarrow> ls) in
         case findIndex (\<lambda>l. normalize (license.key l) = normalize (licenseKey req)) licenses of
           None \<Rightarrow> (Failure 200 (Val ''invalidLicense''), None)
         | Some index \<Rightarrow>
            (let license0 = licenses ! index;
                 license1 =
                   (if \<not> truthy_date (license.activated_on license0)
                    then activation (now e) (req\<lparr>user_agent := Val (or_str (user_agent req) ''Server'')\<rparr>)
                           license0
                    else license0)
             in if truthy_str (device_hash license1) \<and> device_hash license1 \<noteq> deviceId req
                  then (Failure 200 (Val ''deviceMismatch''), None)
                else if truthy_date (expires_at license1) \<and> date_before (expires_at license1) (now e)
                  then (Failure 200 (Val ''expired''), None)
                else
                  (let license2 = license1\<lparr>license.processed_videos :=
                                     Val (or_num (license.processed_videos license1) 0 + 1)\<rparr>;
                       licenses2 = licenses[index := license2]
                   in (Success
                         \<lparr>snapshot.key = license.key license2,
                          plan = license.plan license2,
                          expiresAt = expires_at license2,
                          activatedAt = license.activated_on license2,
                          activated_on = Absent,
                          remainingDays = Absent,
                          processed_videos = license.processed_videos license2,
                          processedVideos = Absent,
                          device_name = license.device_name license2,
                          deviceName = Absent\<rparr>
                         (license.key license2, deviceId req, now e),
                       Some licenses2)))))"

definition express_check_session ::
    "env \<Rightarrow> request \<Rightarrow> fetched \<Rightarrow> response \<times> license list option" where
  "express_check_session e req data =
     (if \<not> truthy_str (licenseKey req) \<or> \<not> truthy_str (deviceId req)
        then (Failure 400 Absent, None)
      else if \<not> config_ok e \<or> \<not> get_ok e then (Failure 500 (Val ''server_error''), None)
      else
        (let licenses = (case data of Malformed \<Rightarrow> [] | Collection ls \<Rightarrow> ls) in
         case find (\<lambda>l. normalize (license.key l) = normalize (licenseKey req)) licenses of
           None \<Rightarrow> (Failure 200 (Val ''deleted''), None)
         | Some license0 \<Rightarrow>
            (if device_hash license0 \<noteq> deviceId req
               then (Failure 200 (Val ''deviceMismatch''), None)
             else if date_before (expires_at license0) (now e)
               then (Failure 200 (Val ''expired''), None)
             else
               (Success
                  \<lparr>snapshot.key = license.key license0,
                   plan = license.plan license0,
                   expiresAt = expires_at license0,
                   activatedAt = Absent,
                   activated_on = license.activated_on license0,
                   remainingDays =
                     (case date_of (expires_at license0) of
                        None \<Rightarrow> Null
                      | Some t \<Rightarrow> Val (ceil_div (t - now e) MS_PER_DAY)),
                   processed_videos = license.processed_videos license0,
                   processedVideos = Absent,
                   device_name = license.device_name license0,
                   deviceName = Absent\<rparr>
                  (license.key license0, deviceId req, now e),
                None))))"

section \<open>The store under a sequence of requests\<close>

text \<open>
  The store holds the collection. A request reads all of it; a write that the store
  accepts replaces all of it.
\<close>

datatype call = Validate env request | CheckSession env request

definition commit :: "env \<Rightarrow> license list \<Rightarrow> response \<times> license list option
    \<Rightarrow> response \<times> license list" where
  "commit e store out =
     (case snd out of
        None \<Rightarrow> (fst out, store)
      | Some ls \<Rightarrow> (fst out, if put_ok e then ls else store))"

fun step :: "license list \<Rightarrow> call \<Rightarrow> response \<times> license list" where
  "step store (Validate e req) = commit e store (validate_license e req (Collection store))"
| "step store (CheckSession e req) = commit e store (check_session e req (Collection store))"

fun run :: "license list \<Rightarrow> call list \<Rightarrow> license list" where
  "run store [] = store"
| "run store (c # cs) = run (snd (step store c)) cs"

section \<open>The Session Cache: the API class of the client\<close>

text \<open>
  The session object that \<open>createSession\<close> builds and \<open>JSON.stringify\<close> writes.
  \<open>JSON.parse\<close> of that text gives the object back: a property holding \<open>undefined\<close> is
  dropped and reads as \<open>undefined\<close> again.
\<close>

record session =
  license :: "snapshot field"
  deviceId :: "string field"
  createdAt :: int
  expiresAt :: int

text \<open>
  The text kept under the session key: one that \<open>JSON.parse\<close> rejects, or the JSON of a
  session object.
\<close>

datatype stored = Garbage | Blob session

record localStorage =
  SESSION :: "stored option"
  LICENSE_KEY :: "string option"
  DEVICE_ID :: "string option"

definition SESSION_DURATION :: int where
  "SESSION_DURATION = 24 * 60 * 60 * 1000"

text \<open>\<open>localStorage.setItem\<close> stores the string form of its argument.\<close>

fun to_item :: "string field \<Rightarrow> string" where
  "to_item (Val s) = s"
| "to_item Absent = ''undefined''"
| "to_item Null = ''null''"

definition destroySession :: "localStorage \<Rightarrow> localStorage" where
  "destroySession ls = ls\<lparr>SESSION := None, LICENSE_KEY := None, DEVICE_ID := None\<rparr>"

text \<open>
  The normalisation of the two spellings of the usage counter, written out in both
  \<open>createSession\<close> and \<open>checkSession\<close>.
\<close>

definition normalize_counter :: "snapshot \<Rightarrow> snapshot" where
  "normalize_counter licenseData =
     (if snapshot.processed_videos licenseData \<noteq> Absent \<and>
         snapshot.processedVideos licenseData = Absent
        then licenseData\<lparr>snapshot.processedVideos := snapshot.processed_videos licenseData\<rparr>
      else if snapshot.processedVideos licenseData \<noteq> Absent \<and>
         snapshot.processed_videos licenseData = Absent
        then licenseData\<lparr>snapshot.processed_videos := snapshot.processedVideos licenseData\<rparr>
      else licenseData)"

definition createSession ::
    "snapshot \<Rightarrow> string field \<Rightarrow> int \<Rightarrow> localStorage \<Rightarrow> session \<times> localStorage" where
  "createSession licenseData0 dev t ls0 =
     (let ls1 = (case dev of
                   Val d \<Rightarrow> (if d \<noteq> [] then ls0\<lparr>DEVICE_ID := Some d\<rparr> else ls0)
                 | Absent \<Rightarrow> ls0
                 | Null \<Rightarrow> ls0);
          licenseData = normalize_counter licenseData0;
          session = \<lparr>license = Val licenseData,
                     deviceId = (if truthy_str dev then dev
                                 else (case DEVICE_ID ls1 of None \<Rightarrow> Null | Some d \<Rightarrow> Val d)),
                     createdAt = t,
                     expiresAt = t + SESSION_DURATION\<rparr>
      in (session,
          ls1\<lparr>SESSION := Some (Blob session),
              LICENSE_KEY := Some (to_item (snapshot.key licenseData))\<rparr>))"

datatype read_result = Invalid string | Valid session

text \<open>\<open>API.checkSession\<close>: the read of the local session.\<close>

definition api_checkSession :: "int \<Rightarrow> localStorage \<Rightarrow> read_result \<times> localStorage" where
  "api_checkSession t ls =
     (case SESSION ls of
        None \<Rightarrow> (Invalid ''no_session'', ls)
      | Some Garbage \<Rightarrow> (Invalid ''invalid_data'', destroySession ls)
      | Some (Blob sessionData) \<Rightarrow>
         (case license sessionData of
            Absent \<Rightarrow> (Invalid ''invalid_session_structure'', destroySession ls)
          | Null \<Rightarrow> (Invalid ''invalid_session_structure'', destroySession ls)
          | Val lic \<Rightarrow>
             (if \<not> truthy_date (snapshot.expiresAt lic)
                then (Invalid ''invalid_session_structure'', destroySession ls)
              else if session.expiresAt sessionData < t then (Invalid ''session_expired'', ls)
              else if date_before (snapshot.expiresAt lic) t
                then (Invalid ''subscription_expired'', ls)
              else (Valid (sessionData\<lparr>license := Val (normalize_counter lic)\<rparr>), ls))))"

definition getRemainingDays :: "datestr field \<Rightarrow> int \<Rightarrow> int" where
  "getRemainingDays expires t =
     (case date_of expires of
        None \<Rightarrow> 0
      | Some expiry \<Rightarrow>
         (let diffTime = expiry - t;
              diffDays = ceil_div diffTime MS_PER_DAY
          in if diffDays > 0 then diffDays else 0))"

section \<open>The Auth Coordinator: AuthManager\<close>

record AuthManager =
  isAuthenticated :: bool
  currentSession :: "session option"
  deviceId :: "string option"

text \<open>\<open>return key && key.length > 0\<close>\<close>

definition validateLicenseFormat :: "string \<Rightarrow> bool" where
  "validateLicenseFormat k = (k \<noteq> [] \<and> length k > 0)"

definition formatLicenseKey :: "string \<Rightarrow> string" where
  "formatLicenseKey input = toUpperCase (trim input)"

text \<open>
  What \<open>api.validateLicense\<close> hands back: \<open>valid: false\<close> with its message, or
  \<open>valid: true\<close> with the license object.
\<close>

datatype api_result = ApiInvalid "string field" | ApiValid snapshot

datatype login_result = LoginFailure string | LoginSuccess session

text \<open>
  The client: the coordinator, the local storage, and the requests sent to the License
  Authority so far (license key and device id of each).
\<close>

record client =
  auth :: AuthManager
  storage :: localStorage
  requests :: "(string \<times> string) list"

text \<open>
  \<open>login\<close>. The License Authority is the function \<open>server\<close>; \<open>fp\<close> is what
  \<open>fingerprint.getDeviceId\<close> gives (\<open>None\<close>: it throws). \<open>getDeviceId\<close> leaves the id
  it returns stored under the device key.
\<close>

definition login ::
    "(string \<Rightarrow> string \<Rightarrow> api_result) \<Rightarrow> string option \<Rightarrow> int \<Rightarrow> string \<Rightarrow> client
      \<Rightarrow> login_result \<times> client" where
  "login server fp t license_key c =
     (if \<not> validateLicenseFormat license_key
        then (LoginFailure ''Invalid license key format'', c)
      else case fp of
        None \<Rightarrow> (LoginFailure ''Login failed. Please try again.'', c)
      | Some dev \<Rightarrow>
         (let c1 = c\<lparr>auth := (auth c)\<lparr>AuthManager.deviceId := Some dev\<rparr>,
                      storage := (storage c)\<lparr>DEVICE_ID := Some dev\<rparr>,
                      requests := requests c @ [(license_key, dev)]\<rparr>
          in case server license_key dev of
               ApiInvalid message \<Rightarrow> (LoginFailure (or_str message ''Invalid license''), c1)
             | ApiValid lic \<Rightarrow>
                (let created = createSession lic (Val dev) t (storage c1);
                     session = (fst created)\<lparr>session.deviceId := Val dev\<rparr>
                 in (LoginSuccess session,
                     c1\<lparr>auth := \<lparr>isAuthenticated = True, currentSession = Some session,
                                  deviceId = Some dev\<rparr>,
                        storage := snd created\<rparr>))))"

section \<open>The protected resource gate\<close>

text \<open>
  A request for a file under \<open>/lib\<close>: its path, its \<open>cookie\<close> header (\<open>None\<close>: no
  header), and the cookies as the platform hands them over parsed.
\<close>

record asset_request =
  pathname :: string
  cookie_header :: "string option"
  cookies :: "(string \<times> string) list"

datatype gate_result = Blocked nat | PassThrough

definition is_engine_asset :: "string \<Rightarrow> bool" where
  "is_engine_asset path =
     (includes_str path ''ffmpeg-core.wasm'' \<or> includes_str path ''ffmpeg-core.worker.js'')"

text \<open>
  \<open>middleware.js\<close>: the body of the cookie test holds comments only, every request
  reaches \<open>return fetch(request)\<close>.
\<close>

definition middleware :: "asset_request \<Rightarrow> gate_result" where
  "middleware request =
     (if is_engine_asset (pathname request)
      then (let cookieHeader = (case cookie_header request of None \<Rightarrow> [] | Some h \<Rightarrow> h)
            in if \<not> includes_str cookieHeader ''flowtik_token='' then PassThrough
               else PassThrough)
      else PassThrough)"

text \<open>The edge handler: \<open>context.cookies.get("flowtik_token")\<close>, 403 when it is falsy.\<close>

definition edge_handler :: "asset_request \<Rightarrow> gate_result" where
  "edge_handler request =
     (if is_engine_asset (pathname request)
      then (case map_of (cookies request) ''flowtik_token'' of
              None \<Rightarrow> Blocked 403
            | Some token \<Rightarrow> (if token = [] then Blocked 403 else PassThrough))
      else PassThrough)"

text \<open>The Express server: \<open>app.use('/lib', ...)\<close> before the static files.\<close>

definition express_lib_gate :: "asset_request \<Rightarrow> gate_result" where
  "express_lib_gate req =
     (if is_engine_asset (pathname req)
      then (case map_of (cookies req) ''flowtik_token'' of
              None \<Rightarrow> Blocked 403
            | Some token \<Rightarrow> (if token = [] then Blocked 403 else PassThrough))
      else PassThrough)"

section \<open>Auxiliary notions and concrete inputs\<close>

text \<open>
  What one request may do to a stored record: the key stays, and the device lock of an
  activated record stays.
\<close>

definition keeps_lock :: "license \<Rightarrow> license \<Rightarrow> bool" where
  "keeps_lock l l' =
     (license.key l' = license.key l \<and>
      (isActivated l \<longrightarrow> isActivated l' \<and> device_hash l' = device_hash l))"

definition only_checks :: "call list \<Rightarrow> bool" where
  "only_checks cs =
     list_all (\<lambda>c. case c of CheckSession e r \<Rightarrow> True | Validate e r \<Rightarrow> False) cs"

text \<open>
  The enum of error codes as the specification lists it (section 6), to compare the
  codes of the handlers with.
\<close>

definition spec_error_enum :: "string list" where
  "spec_error_enum =
     [''invalidLicense'', ''deviceMismatch'', ''expired'', ''network'', ''server_error'',
      ''invalid_session_structure'', ''no_session'']"

definition env0 :: env where
  "env0 = \<lparr>config_ok = True, get_ok = True, put_ok = True, now = 1700000000000\<rparr>"

definition post_request :: "string \<Rightarrow> string \<Rightarrow> request" where
  "post_request k d =
     \<lparr>is_post = True, licenseKey = Val k, deviceId = Val d,
      user_agent = Val ''Mozilla/5.0 (Windows NT 10.0; Win64; x64)''\<rparr>"

text \<open>The license of scenario A: provisioned, never used.\<close>

definition scenario_license :: license where
  "scenario_license =
     \<lparr>license.key = Val ''ABC-1'', plan = Absent, activated_on = Absent, device_hash = Absent,
      device_name = Absent, deviceName = Absent, expires_at = Absent, duration_days = Val 30,
      processed_videos = Absent, processedVideos = Absent\<rparr>"

text \<open>The same license after \<open>dev1\<close> has activated it.\<close>

definition active_license :: license where
  "active_license =
     \<lparr>license.key = Val ''ABC-1'', plan = Absent, activated_on = Val (Iso 1700000000000),
      device_hash = Val ''dev1'', device_name = Val ''Windows PC'', deviceName = Absent,
      expires_at = Val (Iso 1702592000000), duration_days = Val 30,
      processed_videos = Val 1, processedVideos = Absent\<rparr>"

text \<open>A license of \<open>dev1\<close> whose expiry lies before the clock of \<open>env0\<close>.\<close>

definition expired_license :: license where
  "expired_license =
     \<lparr>license.key = Val ''ABC-1'', plan = Absent, activated_on = Val (Iso 1590000000000),
      device_hash = Val ''dev1'', device_name = Val ''Windows PC'', deviceName = Absent,
      expires_at = Val (Iso 1600000000000), duration_days = Val 30,
      processed_videos = Val 7, processedVideos = Absent\<rparr>"

text \<open>A record that carries a device hash but has never been activated.\<close>

definition preset_license :: license where
  "preset_license =
     \<lparr>license.key = Val ''ABC-1'', plan = Absent, activated_on = Absent,
      device_hash = Val ''dev1'', device_name = Absent, deviceName = Absent,
      expires_at = Absent, duration_days = Absent,
      processed_videos = Absent, processedVideos = Absent\<rparr>"


definition preset_lapsed_license :: license where
  "preset_lapsed_license =
     \<lparr>license.key = Val ''ABC-1'', plan = Absent, activated_on = Absent,
      device_hash = Val ''dev1'', device_name = Absent, deviceName = Absent,
      expires_at = Val (Iso 1600000000000), duration_days = Absent,
      processed_videos = Absent, processedVideos = Absent\<rparr>"

text \<open>A validate by \<open>dev1\<close> followed by a check by \<open>dev2\<close>.\<close>

definition calls0 :: "call list" where
  "calls0 = [Validate env0 (post_request ''ABC-1'' ''dev1''),
             CheckSession env0 (post_request ''abc-1'' ''dev2'')]"

text \<open>The license object that api/validate-license answers with for \<open>active_license\<close>.\<close>

definition snapshot0 :: snapshot where
  "snapshot0 =
     \<lparr>snapshot.key = Val ''ABC-1'', plan = Val ''Premium'',
      expiresAt = Val (Iso 1702592000000), activatedAt = Val (Iso 1700000000000),
      activated_on = Absent, remainingDays = Absent, processed_videos = Val 1,
      processedVideos = Absent, device_name = Val ''Windows PC'', deviceName = Absent\<rparr>"

definition empty_storage :: localStorage where
  "empty_storage = \<lparr>SESSION = None, LICENSE_KEY = None, DEVICE_ID = None\<rparr>"

definition client0 :: client where
  "client0 =
     \<lparr>auth = \<lparr>isAuthenticated = False, currentSession = None, deviceId = None\<rparr>,
      storage = empty_storage, requests = []\<rparr>"

definition wasm_request :: asset_request where
  "wasm_request = \<lparr>pathname = ''/lib/ffmpeg-core.wasm'', cookie_header = None, cookies = []\<rparr>"

section \<open>Lemmas on lookup and on what a request writes\<close>

lemma normalize_abc: "normalize (Val ''abc-1'') = ''ABC-1''"
  by code_simp

lemma normalize_ABC: "normalize (Val ''ABC-1'') = ''ABC-1''"
  by code_simp

lemma simplifyUserAgent_nonempty: "simplifyUserAgent ua \<noteq> []"
  by (simp add: simplifyUserAgent_def)

lemma findIndex_Some: "findIndex p xs = Some i \<Longrightarrow> i < length xs \<and> p (xs ! i)"
proof (induction xs arbitrary: i)
  case Nil
  then show ?case by simp
next
  case (Cons x xs)
  then show ?case by (auto split: if_splits option.splits)
qed

lemma find_findIndex: "findIndex p xs = Some i \<Longrightarrow> find p xs = Some (xs ! i)"
proof (induction xs arbitrary: i)
  case Nil
  then show ?case by simp
next
  case (Cons x xs)
  then show ?case by (auto split: if_splits option.splits)
qed

lemma findIndex_cong_map:
  "map f xs = map f ys \<Longrightarrow> findIndex (\<lambda>l. g (f l)) xs = findIndex (\<lambda>l. g (f l)) ys"
proof (induction xs arbitrary: ys)
  case Nil
  then show ?case by simp
next
  case (Cons x xs)
  then obtain y ys' where ys: "ys = y # ys'" by (cases ys) auto
  with Cons.prems have "f x = f y" "map f xs = map f ys'" by auto
  with Cons.IH[of ys'] ys show ?case by simp
qed

lemma keeps_lock_refl: "keeps_lock l l"
  by (simp add: keeps_lock_def)

lemma keeps_lock_trans: "keeps_lock a b \<Longrightarrow> keeps_lock b c \<Longrightarrow> keeps_lock a c"
  by (auto simp: keeps_lock_def)

lemma activation_key: "license.key (activation t r l) = license.key l"
  by (simp add: activation_def Let_def split: field.splits)

lemma validate_license_write:
  assumes "validate_license e r (Collection store) = (resp, Some ls)"
  shows "\<exists>i l'. i < length store \<and> ls = store[i := l'] \<and> keeps_lock (store ! i) l'"
proof -
  from assms obtain i where
    fi: "findIndex (\<lambda>l. normalize (license.key l) = normalize (licenseKey r)) store = Some i"
    by (auto simp: validate_license_def Let_def split: if_splits option.splits)
  then have "i < length store" using findIndex_Some by fastforce
  moreover from assms fi have "\<exists>l'. ls = store[i := l'] \<and> keeps_lock (store ! i) l'"
    by (auto simp: validate_license_def Let_def keeps_lock_def activation_key isActivated_def
        split: if_splits)
  ultimately show ?thesis by blast
qed

lemma check_session_no_write: "snd (check_session e r data) = None"
  by (simp add: check_session_def Let_def split: fetched.splits option.splits)

lemma express_check_session_no_write: "snd (express_check_session e r data) = None"
  by (simp add: express_check_session_def Let_def split: fetched.splits option.splits)

lemma step_keeps_lock:
  "length (snd (step store c)) = length store \<and>
   (\<forall>i < length store. keeps_lock (store ! i) (snd (step store c) ! i))"
proof (cases c)
  case (Validate e r)
  show ?thesis
  proof (cases "snd (validate_license e r (Collection store))")
    case None
    with Validate show ?thesis by (simp add: commit_def keeps_lock_refl)
  next
    case (Some ls)
    then have "validate_license e r (Collection store) =
        (fst (validate_license e r (Collection store)), Some ls)"
      by (metis prod.collapse)
    from validate_license_write[OF this] obtain j l' where
      j: "j < length store" "ls = store[j := l']" "keeps_lock (store ! j) l'" by blast
    with Validate Some show ?thesis
      by (auto simp: commit_def keeps_lock_refl nth_list_update)
  qed
next
  case (CheckSession e r)
  then show ?thesis
    using check_session_no_write[of e r "Collection store"]
    by (simp add: commit_def keeps_lock_refl)
qed

lemma run_keeps_lock:
  "length (run store cs) = length store \<and>
   (\<forall>i < length store. keeps_lock (store ! i) (run store cs ! i))"
proof (induction cs arbitrary: store)
  case Nil
  then show ?case by (simp add: keeps_lock_refl)
next
  case (Cons c cs)
  have s: "length (snd (step store c)) = length store"
    "\<forall>i < length store. keeps_lock (store ! i) (snd (step store c) ! i)"
    using step_keeps_lock[of store c] by auto
  from Cons.IH[of "snd (step store c)"] s show ?case
    by (auto intro: keeps_lock_trans)
qed

lemma run_keys: "map license.key (run store cs) = map license.key store"
  using run_keeps_lock[of store cs]
  by (auto simp: list_eq_iff_nth_eq keeps_lock_def)

lemma run_only_checks: "only_checks cs \<Longrightarrow> run store cs = store"
proof (induction cs arbitrary: store)
  case Nil
  then show ?case by simp
next
  case (Cons c cs)
  then obtain e r where c: "c = CheckSession e r"
    by (cases c) (auto simp: only_checks_def)
  have "snd (step store c) = store"
    using check_session_no_write[of e r "Collection store"] c by (simp add: commit_def)
  with Cons show ?case by (simp add: only_checks_def)
qed

lemma lookup_ABC_1:
  "license.key l = Val ''ABC-1'' \<Longrightarrow>
   findIndex (\<lambda>l. normalize (license.key l) = normalize (Val ''abc-1'')) [l] = Some 0"
  by (simp add: normalize_abc normalize_ABC del: normalize.simps)

section \<open>C6: scenario A\<close>

text \<open>
  C6. The store holds the unactivated license with key \<open>ABC-1\<close> and \<open>duration_days\<close> 30.
  A validate request for \<open>abc-1\<close> from \<open>dev1\<close> at time \<open>t\<close> finds the record under the
  trimmed and uppercased key and answers \<open>valid: true\<close> with \<open>activatedAt\<close> the time
  \<open>t\<close>, \<open>expiresAt\<close> thirty days after \<open>t\<close> and \<open>processed_videos\<close> 1; the record
  written back is activated, bound to \<open>dev1\<close> and counts one use.
\<close>

theorem scenario_A:
  "validate_license \<lparr>config_ok = True, get_ok = True, put_ok = True, now = t\<rparr>
     \<lparr>is_post = True, licenseKey = Val ''abc-1'', deviceId = Val ''dev1'', user_agent = ua\<rparr>
     (Collection [scenario_license])
   = (Success
        \<lparr>snapshot.key = Val ''ABC-1'', plan = Val ''Premium'',
         expiresAt = Val (Iso (t + 30 * MS_PER_DAY)), activatedAt = Val (Iso t),
         activated_on = Absent, remainingDays = Absent, processed_videos = Val 1,
         processedVideos = Absent,
         device_name = Val (simplifyUserAgent (or_str ua ''Unknown Device'')),
         deviceName = Absent\<rparr>
        (Val ''ABC-1'', Val ''dev1'', t),
      Some [scenario_license\<lparr>license.activated_on := Val (Iso t), device_hash := Val ''dev1'',
              license.device_name := Val (simplifyUserAgent (or_str ua ''Unknown Device'')),
              expires_at := Val (Iso (t + 30 * MS_PER_DAY)),
              license.processed_videos := Val 1\<rparr>])"
  by (simp add: validate_license_def scenario_license_def normalize_abc normalize_ABC
      isActivated_def activation_def date_before_def Let_def MS_PER_DAY_def
      simplifyUserAgent_nonempty del: normalize.simps)

text \<open>Scenario A at the clock of \<open>env0\<close>, from a Windows browser.\<close>

theorem scenario_A_witness:
  "validate_license env0 (post_request ''abc-1'' ''dev1'') (Collection [scenario_license])
   = (Success snapshot0 (Val ''ABC-1'', Val ''dev1'', 1700000000000), Some [active_license])"
  using scenario_A[of 1700000000000 "Val ''Mozilla/5.0 (Windows NT 10.0; Win64; x64)''"]
  by (simp add: env0_def post_request_def snapshot0_def active_license_def scenario_license_def
      MS_PER_DAY_def simplifyUserAgent_def)

section \<open>C1: the device lock\<close>

text \<open>
  C1, as the claim states it, fails on a record that carries a device hash but was never
  activated: validate from another device activates it, overwrites \<open>device_hash\<close> with
  the caller's device id and succeeds.
\<close>

theorem device_lock_counterexample:
  "device_hash preset_license = Val ''dev1'' \<and>
   step [preset_license] (Validate env0 (post_request ''abc-1'' ''dev2''))
   = (Success
        \<lparr>snapshot.key = Val ''ABC-1'', plan = Val ''Premium'', expiresAt = Absent,
         activatedAt = Val (Iso 1700000000000), activated_on = Absent, remainingDays = Absent,
         processed_videos = Val 1, processedVideos = Absent,
         device_name = Val ''Windows PC'', deviceName = Absent\<rparr>
        (Val ''ABC-1'', Val ''dev2'', 1700000000000),
      [preset_license\<lparr>license.activated_on := Val (Iso 1700000000000),
         device_hash := Val ''dev2'', license.device_name := Val ''Windows PC'',
         license.processed_videos := Val 1\<rparr>])"
  by (simp add: validate_license_def commit_def preset_license_def env0_def post_request_def
      normalize_abc normalize_ABC isActivated_def activation_def date_before_def Let_def
      simplifyUserAgent_def del: normalize.simps)

text \<open>
  C1, amended. For every activated license record whose \<open>device_hash\<close> is set to \<open>d\<close>:
  after any sequence \<open>cs\<close> of validate and checkSession requests, whatever their keys,
  devices, clocks and outcomes, the record still holds \<open>device_hash = d\<close>, and a
  well-formed validate or checkSession request that reaches the record with a device id
  other than \<open>d\<close> is answered \<open>deviceMismatch\<close>.
\<close>

theorem device_lock_permanent:
  assumes "findIndex (\<lambda>l. normalize (license.key l) = normalize (licenseKey r)) store = Some i"
    and "isActivated (store ! i)" and "device_hash (store ! i) = Val d" and "d \<noteq> []"
    and "is_post r" and "truthy_str (licenseKey r)" and "truthy_str (request.deviceId r)"
    and "request.deviceId r \<noteq> Val d" and "config_ok e" and "get_ok e"
  shows "device_hash (run store cs ! i) = Val d \<and>
         fst (step (run store cs) (Validate e r)) = Failure 200 (Val ''deviceMismatch'') \<and>
         fst (step (run store cs) (CheckSession e r)) = Failure 200 (Val ''deviceMismatch'')"
proof -
  let ?s = "run store cs"
  from assms(1) have i: "i < length store" using findIndex_Some by fastforce
  with run_keeps_lock[of store cs] have kl: "keeps_lock (store ! i) (?s ! i)" by simp
  with assms(2,3) have act: "isActivated (?s ! i)" and dh: "device_hash (?s ! i) = Val d"
    by (auto simp: keeps_lock_def)
  have fi: "findIndex (\<lambda>l. normalize (license.key l) = normalize (licenseKey r)) ?s = Some i"
    using findIndex_cong_map[OF run_keys, of "\<lambda>k. normalize k = normalize (licenseKey r)" store cs]
      assms(1)
    by simp
  have v: "fst (step ?s (Validate e r)) = Failure 200 (Val ''deviceMismatch'')"
    using fi act dh assms(4-10)
    by (simp add: validate_license_def commit_def Let_def)
  have c: "fst (step ?s (CheckSession e r)) = Failure 200 (Val ''deviceMismatch'')"
    using fi act dh assms(4-10)
    by (simp add: check_session_def commit_def Let_def)
  from dh v c show ?thesis by simp
qed

text \<open>
  The license of \<open>dev1\<close>, after a validate by \<open>dev1\<close> and a check by \<open>dev2\<close>: still
  locked to \<open>dev1\<close>, and \<open>dev2\<close> is turned away by both operations.
\<close>

theorem device_lock_permanent_witness:
  "isActivated active_license \<and> device_hash active_license = Val ''dev1'' \<and>
   device_hash (run [active_license] calls0 ! 0) = Val ''dev1'' \<and>
   fst (step (run [active_license] calls0) (Validate env0 (post_request ''abc-1'' ''dev2'')))
     = Failure 200 (Val ''deviceMismatch'') \<and>
   fst (step (run [active_license] calls0) (CheckSession env0 (post_request ''abc-1'' ''dev2'')))
     = Failure 200 (Val ''deviceMismatch'')"
proof -
  have h1: "findIndex (\<lambda>l. normalize (license.key l) =
      normalize (licenseKey (post_request ''abc-1'' ''dev2''))) [active_license] = Some 0"
    using lookup_ABC_1[of active_license] by (simp add: post_request_def active_license_def)
  have h2: "isActivated ([active_license] ! 0)"
    by (simp add: isActivated_def active_license_def)
  have h3: "device_hash ([active_license] ! 0) = Val ''dev1''"
    by (simp add: active_license_def)
  have h4: "''dev1'' \<noteq> []" by simp
  have h5: "is_post (post_request ''abc-1'' ''dev2'')" by (simp add: post_request_def)
  have h6: "truthy_str (licenseKey (post_request ''abc-1'' ''dev2''))"
    by (simp add: post_request_def)
  have h7: "truthy_str (request.deviceId (post_request ''abc-1'' ''dev2''))"
    by (simp add: post_request_def)
  have h8: "request.deviceId (post_request ''abc-1'' ''dev2'') \<noteq> Val ''dev1''"
    by (simp add: post_request_def)
  have h9: "config_ok env0" by (simp add: env0_def)
  have h10: "get_ok env0" by (simp add: env0_def)
  from device_lock_permanent[OF h1 h2 h3 h4 h5 h6 h7 h8 h9 h10, of calls0] h2 h3
  show ?thesis by (simp del: step.simps)
qed

section \<open>C2: an expired license\<close>




section \<open>C3: checkSession leaves the store alone\<close>

lemma check_session_unbound:
  assumes "findIndex (\<lambda>l. normalize (license.key l) = normalize (licenseKey r)) store = Some i"
    and "\<not> truthy_str (device_hash (store ! i))"
    and "is_post r" and "truthy_str (licenseKey r)" and "truthy_str (request.deviceId r)"
    and "config_ok e" and "get_ok e"
  shows "check_session e r (Collection store) = (Failure 200 (Val ''deviceMismatch''), None) \<and>
         express_check_session e r (Collection store) = (Failure 200 (Val ''deviceMismatch''), None)"
proof -
  from assms(2,5) have ne: "device_hash (store ! i) \<noteq> request.deviceId r" by auto
  from find_findIndex[OF assms(1)]
  have f: "find (\<lambda>l. normalize (license.key l) = normalize (licenseKey r)) store
      = Some (store ! i)" .
  show ?thesis using assms f ne
    by (simp add: check_session_def express_check_session_def Let_def)
qed

text \<open>
  C3, as the claim states it, fails on a record that was never activated but carries a
  device hash: checkSession never reads \<open>activated_on\<close>, so a check from that device
  does not fail; it answers \<open>valid: true\<close> and renews the cookie.
\<close>

theorem check_session_counterexample:
  "\<not> isActivated preset_license \<and>
   check_session env0 (post_request ''abc-1'' ''dev1'') (Collection [preset_license])
   = (Success
        \<lparr>snapshot.key = Val ''ABC-1'', plan = Val ''Premium'', expiresAt = Absent,
         activatedAt = Absent, activated_on = Absent, remainingDays = Null,
         processed_videos = Val 0, processedVideos = Absent,
         device_name = Val ''Device not specified'', deviceName = Absent\<rparr>
        (Val ''ABC-1'', Val ''dev1'', 1700000000000),
      None)"
  by (simp add: check_session_def preset_license_def env0_def post_request_def
      normalize_abc normalize_ABC isActivated_def date_before_def Let_def
      del: normalize.simps)

text \<open>
  C3, amended. checkSession never writes to the store, in the serverless handler and in
  the Express route alike: whatever the request, the clock and the document read, it
  sends no collection back. So a run of checkSession requests only leaves the whole
  store, and with it every \<open>processed_videos\<close>, as it was; no record is activated. For
  a record that carries no device hash (\<open>device_hash\<close> unset or empty), activated or
  not, a well-formed checkSession request that reaches it fails with \<open>deviceMismatch\<close>.
\<close>

theorem check_session_frame:
  "snd (check_session e r data) = None \<and>
   snd (express_check_session e r data) = None \<and>
   (only_checks cs \<longrightarrow> run store cs = store) \<and>
   (findIndex (\<lambda>l. normalize (license.key l) = normalize (licenseKey r)) store = Some i \<and>
    \<not> truthy_str (device_hash (store ! i)) \<and>
    is_post r \<and> truthy_str (licenseKey r) \<and> truthy_str (request.deviceId r) \<and>
    config_ok e \<and> get_ok e \<longrightarrow>
      check_session e r (Collection store) = (Failure 200 (Val ''deviceMismatch''), None) \<and>
      express_check_session e r (Collection store) = (Failure 200 (Val ''deviceMismatch''), None))"
  using check_session_no_write express_check_session_no_write run_only_checks
    check_session_unbound
  by blast

text \<open>
  Two checks of the unactivated license of scenario A leave the store as it was, and
  each is answered \<open>deviceMismatch\<close>.
\<close>

theorem check_session_frame_witness:
  "only_checks [CheckSession env0 (post_request ''abc-1'' ''dev1''),
                CheckSession env0 (post_request ''abc-1'' ''dev1'')] \<and>
   \<not> isActivated scenario_license \<and>
   run [scenario_license] [CheckSession env0 (post_request ''abc-1'' ''dev1''),
                           CheckSession env0 (post_request ''abc-1'' ''dev1'')]
     = [scenario_license] \<and>
   check_session env0 (post_request ''abc-1'' ''dev1'') (Collection [scenario_license])
     = (Failure 200 (Val ''deviceMismatch''), None) \<and>
   express_check_session env0 (post_request ''abc-1'' ''dev1'') (Collection [scenario_license])
     = (Failure 200 (Val ''deviceMismatch''), None)"
proof -
  have h0: "only_checks [CheckSession env0 (post_request ''abc-1'' ''dev1''),
                CheckSession env0 (post_request ''abc-1'' ''dev1'')]"
    by (simp add: only_checks_def)
  have h1: "findIndex (\<lambda>l. normalize (license.key l) =
      normalize (licenseKey (post_request ''abc-1'' ''dev1''))) [scenario_license] = Some 0"
    using lookup_ABC_1[of scenario_license] by (simp add: post_request_def scenario_license_def)
  have h2: "\<not> truthy_str (device_hash ([scenario_license] ! 0))"
    by (simp add: scenario_license_def)
  have h3: "is_post (post_request ''abc-1'' ''dev1'')" by (simp add: post_request_def)
  have h4: "truthy_str (licenseKey (post_request ''abc-1'' ''dev1''))"
    by (simp add: post_request_def)
  have h5: "truthy_str (request.deviceId (post_request ''abc-1'' ''dev1''))"
    by (simp add: post_request_def)
  have h6: "config_ok env0" by (simp add: env0_def)
  have h7: "get_ok env0" by (simp add: env0_def)
  have h8: "\<not> isActivated scenario_license"
    by (simp add: isActivated_def scenario_license_def)
  from check_session_frame[of env0 "post_request ''abc-1'' ''dev1''" "Collection [scenario_license]"
      "[CheckSession env0 (post_request ''abc-1'' ''dev1''),
        CheckSession env0 (post_request ''abc-1'' ''dev1'')]" "[scenario_license]" 0]
    h0 h1 h2 h3 h4 h5 h6 h7 h8
  show ?thesis by blast
qed

section \<open>C5: the order of the standing guards\<close>

text \<open>
  C5, as the claim states it, fails for validate on a record that was never activated,
  carries the hash of another device and is past its expiry: the first-use block binds
  the record to the caller before the device guard runs, so the guard passes and the
  answer is \<open>expired\<close>, in the serverless handler and in the Express route.
\<close>

theorem device_guard_counterexample:
  "device_hash preset_lapsed_license = Val ''dev1'' \<and>
   date_before (expires_at preset_lapsed_license) (now env0) \<and>
   validate_license env0 (post_request ''abc-1'' ''dev2'') (Collection [preset_lapsed_license])
     = (Failure 200 (Val ''expired''), None) \<and>
   express_validate_license env0 (post_request ''abc-1'' ''dev2'')
       (Collection [preset_lapsed_license])
     = (Failure 200 (Val ''expired''), None)"
  by (simp add: validate_license_def express_validate_license_def preset_lapsed_license_def
      env0_def post_request_def normalize_abc normalize_ABC isActivated_def activation_def
      date_before_def Let_def del: normalize.simps)

text \<open>
  C5, amended. The device guard is evaluated before the expiry guard. For a record
  whose \<open>device_hash\<close> is set and differs from the caller's device id and whose expiry
  is past, checkSession answers \<open>deviceMismatch\<close>, not \<open>expired\<close>, and so does validate
  when the record is activated; the two routes of the Express server do the same.
\<close>

theorem device_guard_first:
  assumes "findIndex (\<lambda>l. normalize (license.key l) = normalize (licenseKey r)) store = Some i"
    and "truthy_str (device_hash (store ! i))" and "device_hash (store ! i) \<noteq> request.deviceId r"
    and "expires_at (store ! i) = Val (Iso t)" and "t < now e"
    and "is_post r" and "truthy_str (licenseKey r)" and "truthy_str (request.deviceId r)"
    and "config_ok e" and "get_ok e"
  shows "(isActivated (store ! i) \<longrightarrow>
           validate_license e r (Collection store)
             = (Failure 200 (Val ''deviceMismatch''), None) \<and>
           express_validate_license e r (Collection store)
             = (Failure 200 (Val ''deviceMismatch''), None)) \<and>
         check_session e r (Collection store) = (Failure 200 (Val ''deviceMismatch''), None) \<and>
         express_check_session e r (Collection store)
           = (Failure 200 (Val ''deviceMismatch''), None)"
proof -
  from find_findIndex[OF assms(1)]
  have f: "find (\<lambda>l. normalize (license.key l) = normalize (licenseKey r)) store
      = Some (store ! i)" .
  have v: "isActivated (store ! i) \<longrightarrow>
      validate_license e r (Collection store) = (Failure 200 (Val ''deviceMismatch''), None)"
    using assms by (simp add: validate_license_def Let_def)
  have x: "isActivated (store ! i) \<longrightarrow>
      express_validate_license e r (Collection store)
        = (Failure 200 (Val ''deviceMismatch''), None)"
    using assms by (simp add: express_validate_license_def Let_def isActivated_def)
  have c: "check_session e r (Collection store)
      = (Failure 200 (Val ''deviceMismatch''), None)"
    using assms by (simp add: check_session_def Let_def)
  have y: "express_check_session e r (Collection store)
      = (Failure 200 (Val ''deviceMismatch''), None)"
    using assms f by (simp add: express_check_session_def Let_def)
  from v x c y show ?thesis by simp
qed

text \<open>The expired license of \<open>dev1\<close>, asked for by \<open>dev2\<close>.\<close>

theorem device_guard_first_witness:
  "isActivated expired_license \<and>
   date_before (expires_at expired_license) (now env0) \<and>
   validate_license env0 (post_request ''abc-1'' ''dev2'') (Collection [expired_license])
     = (Failure 200 (Val ''deviceMismatch''), None) \<and>
   check_session env0 (post_request ''abc-1'' ''dev2'') (Collection [expired_license])
     = (Failure 200 (Val ''deviceMismatch''), None) \<and>
   express_validate_license env0 (post_request ''abc-1'' ''dev2'') (Collection [expired_license])
     = (Failure 200 (Val ''deviceMismatch''), None) \<and>
   express_check_session env0 (post_request ''abc-1'' ''dev2'') (Collection [expired_license])
     = (Failure 200 (Val ''deviceMismatch''), None)"
proof -
  have h1: "findIndex (\<lambda>l. normalize (license.key l) =
      normalize (licenseKey (post_request ''abc-1'' ''dev2''))) [expired_license] = Some 0"
    using lookup_ABC_1[of expired_license] by (simp add: post_request_def expired_license_def)
  have h2: "isActivated ([expired_license] ! 0)"
    by (simp add: isActivated_def expired_license_def)
  have h3: "truthy_str (device_hash ([expired_license] ! 0))"
    by (simp add: expired_license_def)
  have h4: "device_hash ([expired_license] ! 0) \<noteq> request.deviceId (post_request ''abc-1'' ''dev2'')"
    by (simp add: expired_license_def post_request_def)
  have h5: "expires_at ([expired_license] ! 0) = Val (Iso 1600000000000)"
    by (simp add: expired_license_def)
  have h6: "1600000000000 < now env0" by (simp add: env0_def)
  have h7: "is_post (post_request ''abc-1'' ''dev2'')" by (simp add: post_request_def)
  have h8: "truthy_str (licenseKey (post_request ''abc-1'' ''dev2''))"
    by (simp add: post_request_def)
  have h9: "truthy_str (request.deviceId (post_request ''abc-1'' ''dev2''))"
    by (simp add: post_request_def)
  have h10: "config_ok env0" by (simp add: env0_def)
  have h11: "get_ok env0" by (simp add: env0_def)
  have h12: "date_before (expires_at expired_license) (now env0)"
    by (simp add: date_before_def expired_license_def env0_def)
  from device_guard_first[OF h1 h3 h4 h5 h6 h7 h8 h9 h10 h11] h2 h12
  show ?thesis by simp
qed

section \<open>C4: create, then read\<close>

lemma normalize_counter_idem: "normalize_counter (normalize_counter s) = normalize_counter s"
  by (simp add: normalize_counter_def)

lemma normalize_counter_other:
  "snapshot.key (normalize_counter s) = snapshot.key s \<and>
   snapshot.plan (normalize_counter s) = snapshot.plan s \<and>
   snapshot.expiresAt (normalize_counter s) = snapshot.expiresAt s \<and>
   activatedAt (normalize_counter s) = activatedAt s \<and>
   snapshot.activated_on (normalize_counter s) = snapshot.activated_on s \<and>
   remainingDays (normalize_counter s) = remainingDays s \<and>
   snapshot.device_name (normalize_counter s) = snapshot.device_name s \<and>
   snapshot.deviceName (normalize_counter s) = snapshot.deviceName s"
  by (simp add: normalize_counter_def)

lemma normalize_counter_fills:
  "(snapshot.processed_videos s \<noteq> Absent \<and> snapshot.processedVideos s = Absent \<longrightarrow>
      snapshot.processed_videos (normalize_counter s) = snapshot.processed_videos s \<and>
      snapshot.processedVideos (normalize_counter s) = snapshot.processed_videos s) \<and>
   (snapshot.processedVideos s \<noteq> Absent \<and> snapshot.processed_videos s = Absent \<longrightarrow>
      snapshot.processed_videos (normalize_counter s) = snapshot.processedVideos s \<and>
      snapshot.processedVideos (normalize_counter s) = snapshot.processedVideos s) \<and>
   ((snapshot.processed_videos s = Absent) = (snapshot.processedVideos s = Absent) \<longrightarrow>
      normalize_counter s = s)"
  by (auto simp: normalize_counter_def)

text \<open>
  C4, as the claim states it, fails on the license object that validate answers with:
  it carries \<open>device_name\<close> and no \<open>deviceName\<close>, and after create and read the session
  still has no \<open>deviceName\<close>, while the counter has both spellings.
\<close>

theorem create_then_read_counterexample:
  "fst (api_checkSession 1700000000000
          (snd (createSession snapshot0 (Val ''dev1'') 1700000000000 empty_storage)))
   = Valid \<lparr>license = Val (snapshot0\<lparr>snapshot.processedVideos := Val 1\<rparr>),
            deviceId = Val ''dev1'', createdAt = 1700000000000, expiresAt = 1700086400000\<rparr> \<and>
   snapshot.device_name (snapshot0\<lparr>snapshot.processedVideos := Val 1\<rparr>) = Val ''Windows PC'' \<and>
   snapshot.deviceName (snapshot0\<lparr>snapshot.processedVideos := Val 1\<rparr>) = Absent"
  by (simp add: api_checkSession_def createSession_def normalize_counter_def snapshot0_def
      empty_storage_def SESSION_DURATION_def date_before_def Let_def)

text \<open>
  C4, amended. For every license snapshot \<open>s\<close> whose \<open>expiresAt\<close> is present and not in
  the past, \<open>createSession s dev\<close> at time \<open>t\<close> followed by a read at a time \<open>t'\<close>
  within the session duration succeeds and returns the session created. Its license
  equals the input in \<open>key\<close>, \<open>plan\<close>, \<open>expiresAt\<close>, \<open>activatedAt\<close>, \<open>activated_on\<close>,
  \<open>remainingDays\<close> and in both spellings of the device label, which are kept as
  supplied; when exactly one spelling of the usage counter is present, both spellings
  hold its value; when both or neither are present, the license is the input unchanged.
\<close>

theorem create_then_read:
  assumes "truthy_date (snapshot.expiresAt s)" and "\<not> date_before (snapshot.expiresAt s) t'"
    and "t \<le> t'" and "t' \<le> t + SESSION_DURATION"
  shows "api_checkSession t' (snd (createSession s dev t ls))
           = (Valid (fst (createSession s dev t ls)), snd (createSession s dev t ls)) \<and>
         license (fst (createSession s dev t ls)) = Val (normalize_counter s) \<and>
         snapshot.key (normalize_counter s) = snapshot.key s \<and>
         snapshot.plan (normalize_counter s) = snapshot.plan s \<and>
         snapshot.expiresAt (normalize_counter s) = snapshot.expiresAt s \<and>
         activatedAt (normalize_counter s) = activatedAt s \<and>
         snapshot.activated_on (normalize_counter s) = snapshot.activated_on s \<and>
         remainingDays (normalize_counter s) = remainingDays s \<and>
         snapshot.device_name (normalize_counter s) = snapshot.device_name s \<and>
         snapshot.deviceName (normalize_counter s) = snapshot.deviceName s \<and>
         (snapshot.processed_videos s \<noteq> Absent \<and> snapshot.processedVideos s = Absent \<longrightarrow>
            snapshot.processed_videos (normalize_counter s) = snapshot.processed_videos s \<and>
            snapshot.processedVideos (normalize_counter s) = snapshot.processed_videos s) \<and>
         (snapshot.processedVideos s \<noteq> Absent \<and> snapshot.processed_videos s = Absent \<longrightarrow>
            snapshot.processed_videos (normalize_counter s) = snapshot.processedVideos s \<and>
            snapshot.processedVideos (normalize_counter s) = snapshot.processedVideos s) \<and>
         ((snapshot.processed_videos s = Absent) = (snapshot.processedVideos s = Absent) \<longrightarrow>
            normalize_counter s = s)"
proof -
  have e: "snapshot.expiresAt (normalize_counter s) = snapshot.expiresAt s"
    using normalize_counter_other by simp
  have r: "api_checkSession t' (snd (createSession s dev t ls))
      = (Valid (fst (createSession s dev t ls)), snd (createSession s dev t ls))"
    using assms e
    by (simp add: api_checkSession_def createSession_def Let_def normalize_counter_idem)
  have l: "license (fst (createSession s dev t ls)) = Val (normalize_counter s)"
    by (simp add: createSession_def Let_def)
  from r l normalize_counter_fills[of s] normalize_counter_other[of s] show ?thesis by blast
qed

text \<open>
  The license object that validate answers with, stored and read back at once: the
  session comes back, and \<open>processedVideos\<close> has been filled from \<open>processed_videos\<close>.
\<close>

theorem create_then_read_witness:
  "api_checkSession 1700000000000
      (snd (createSession snapshot0 (Val ''dev1'') 1700000000000 empty_storage))
     = (Valid (fst (createSession snapshot0 (Val ''dev1'') 1700000000000 empty_storage)),
        snd (createSession snapshot0 (Val ''dev1'') 1700000000000 empty_storage)) \<and>
   snapshot.processed_videos snapshot0 = Val 1 \<and> snapshot.processedVideos snapshot0 = Absent \<and>
   snapshot.processed_videos (normalize_counter snapshot0) = Val 1 \<and>
   snapshot.processedVideos (normalize_counter snapshot0) = Val 1 \<and>
   normalize_counter (snapshot0\<lparr>snapshot.processedVideos := Val 5\<rparr>)
     = snapshot0\<lparr>snapshot.processedVideos := Val 5\<rparr>"
proof -
  have h1: "truthy_date (snapshot.expiresAt snapshot0)" by (simp add: snapshot0_def)
  have h2: "\<not> date_before (snapshot.expiresAt snapshot0) 1700000000000"
    by (simp add: snapshot0_def date_before_def)
  have h3: "(1700000000000::int) \<le> 1700000000000" by simp
  have h4: "(1700000000000::int) \<le> 1700000000000 + SESSION_DURATION"
    by (simp add: SESSION_DURATION_def)
  have h5: "snapshot.processed_videos snapshot0 = Val 1 \<and> snapshot.processedVideos snapshot0 = Absent"
    by (simp add: snapshot0_def)
  have g1: "truthy_date (snapshot.expiresAt (snapshot0\<lparr>snapshot.processedVideos := Val 5\<rparr>))"
    by (simp add: snapshot0_def)
  have g2: "\<not> date_before (snapshot.expiresAt (snapshot0\<lparr>snapshot.processedVideos := Val 5\<rparr>))
      1700000000000"
    by (simp add: snapshot0_def date_before_def)
  have g5: "(snapshot.processed_videos (snapshot0\<lparr>snapshot.processedVideos := Val 5\<rparr>) = Absent)
      = (snapshot.processedVideos (snapshot0\<lparr>snapshot.processedVideos := Val 5\<rparr>) = Absent)"
    by (simp add: snapshot0_def)
  from create_then_read[OF h1 h2 h3 h4, of "Val ''dev1''" empty_storage] h5
    create_then_read[OF g1 g2 h3 h4, of "Val ''dev1''" empty_storage] g5
  show ?thesis by simp
qed

section \<open>C7: the format check of login\<close>

text \<open>
  C7, as the claim states it, fails on a key of two spaces: it is empty after trimming
  and uppercasing, yet it passes the format check, and login sends it to the License
  Authority as it is.
\<close>

theorem format_check_counterexample:
  "formatLicenseKey ''  '' = [] \<and> validateLicenseFormat ''  '' \<and>
   login (\<lambda>k d. ApiInvalid Absent) (Some ''dev1'') 1700000000000 ''  '' client0
   = (LoginFailure ''Invalid license'',
      client0\<lparr>auth := \<lparr>isAuthenticated = False, currentSession = None, deviceId = Some ''dev1''\<rparr>,
         storage := empty_storage\<lparr>DEVICE_ID := Some ''dev1''\<rparr>,
         requests := [(''  '', ''dev1'')]\<rparr>)"
  by (simp add: formatLicenseKey_def toUpperCase_def trim_def is_space_def
      validateLicenseFormat_def login_def client0_def empty_storage_def Let_def)

text \<open>
  C7, amended. The format check of login rejects exactly the empty key, taken as it is
  supplied, without trimming: login with the empty key fails with the format error,
  sends nothing and leaves the client as it was; every non-empty key, white space
  included, passes with no further constraint, and login sends it with the device id to
  the License Authority.
\<close>

theorem format_check:
  "validateLicenseFormat k = (k \<noteq> []) \<and>
   (k = [] \<longrightarrow> login server fp t k c = (LoginFailure ''Invalid license key format'', c)) \<and>
   (k \<noteq> [] \<and> fp = Some dev \<longrightarrow>
      requests (snd (login server fp t k c)) = requests c @ [(k, dev)])"
  by (auto simp: validateLicenseFormat_def login_def Let_def split: api_result.splits)

text \<open>The empty key, and the key \<open>abc-1\<close>, at a fresh client.\<close>

theorem format_check_witness:
  "login (\<lambda>k d. ApiValid snapshot0) (Some ''dev1'') 1700000000000 [] client0
     = (LoginFailure ''Invalid license key format'', client0) \<and>
   requests (snd (login (\<lambda>k d. ApiValid snapshot0) (Some ''dev1'') 1700000000000 ''abc-1'' client0))
     = [(''abc-1'', ''dev1'')]"
  using format_check[of "[]" "\<lambda>k d. ApiValid snapshot0" "Some ''dev1''" 1700000000000 client0 "''dev1''"]
    format_check[of "''abc-1''" "\<lambda>k d. ApiValid snapshot0" "Some ''dev1''" 1700000000000 client0
      "''dev1''"]
  by (simp add: client0_def)

section \<open>C8: the protected resource gate\<close>

text \<open>
  C8. A request for \<open>/lib/ffmpeg-core.wasm\<close> without any cookie: the edge handler and
  the Express server answer 403, but \<open>middleware.js\<close> lets it through to the asset.
\<close>

theorem middleware_passes_without_cookie:
  "is_engine_asset (pathname wasm_request) \<and>
   \<not> includes_str (case cookie_header wasm_request of None \<Rightarrow> [] | Some h \<Rightarrow> h) ''flowtik_token='' \<and>
   map_of (cookies wasm_request) ''flowtik_token'' = None \<and>
   middleware wasm_request = PassThrough \<and>
   edge_handler wasm_request = Blocked 403 \<and>
   express_lib_gate wasm_request = Blocked 403"
  by (simp add: middleware_def edge_handler_def express_lib_gate_def is_engine_asset_def
      wasm_request_def)

section \<open>C9: the error codes\<close>

text \<open>
  C9, as the claim states it, fails on a key that is not in the store: checkSession
  answers with the code \<open>deleted\<close>, which the enum does not hold.
\<close>

theorem failure_codes_counterexample:
  "check_session env0 (post_request ''abc-1'' ''dev1'') (Collection [])
     = (Failure 200 (Val ''deleted''), None) \<and>
   ''deleted'' \<notin> set spec_error_enum"
  by (simp add: check_session_def env0_def post_request_def spec_error_enum_def Let_def)

text \<open>
  C9, amended. Every failure result of validate carries one of the codes
  \<open>invalidLicense\<close>, \<open>deviceMismatch\<close>, \<open>expired\<close>, \<open>network\<close>, \<open>server_error\<close>,
  \<open>Missing license key or device ID\<close>, \<open>Server configuration error\<close>; every failure
  result of checkSession one of the same with \<open>deleted\<close> in the place of
  \<open>invalidLicense\<close>; every failure of the local session read one of \<open>no_session\<close>,
  \<open>invalid_data\<close>, \<open>invalid_session_structure\<close>, \<open>session_expired\<close>,
  \<open>subscription_expired\<close>. A key missing from the store is surfaced as
  \<open>invalidLicense\<close> by validate and as \<open>deleted\<close> by checkSession.
\<close>

theorem failure_codes:
  "(validate_license e r data = (Failure st err, w) \<longrightarrow>
      err \<in> Val ` set [''invalidLicense'', ''deviceMismatch'', ''expired'', ''network'',
        ''server_error'', ''Missing license key or device ID'', ''Server configuration error'']) \<and>
   (check_session e r data = (Failure st err, w) \<longrightarrow>
      err \<in> Val ` set [''deleted'', ''deviceMismatch'', ''expired'', ''network'',
        ''server_error'', ''Missing license key or device ID'', ''Server configuration error'']) \<and>
   (fst (api_checkSession t ls) = Invalid code \<longrightarrow>
      code \<in> set [''no_session'', ''invalid_data'', ''invalid_session_structure'',
        ''session_expired'', ''subscription_expired'']) \<and>
   (findIndex (\<lambda>l. normalize (license.key l) = normalize (licenseKey r)) store = None \<and>
    is_post r \<and> truthy_str (licenseKey r) \<and> truthy_str (request.deviceId r) \<and>
    config_ok e \<and> get_ok e \<longrightarrow>
      validate_license e r (Collection store) = (Failure 200 (Val ''invalidLicense''), None) \<and>
      check_session e r (Collection store) = (Failure 200 (Val ''deleted''), None))"
proof -
  have a: "validate_license e r data = (Failure st err, w) \<longrightarrow>
      err \<in> Val ` set [''invalidLicense'', ''deviceMismatch'', ''expired'', ''network'',
        ''server_error'', ''Missing license key or device ID'', ''Server configuration error'']"
    by (auto simp: validate_license_def Let_def split: if_splits fetched.splits option.splits)
  have b: "check_session e r data = (Failure st err, w) \<longrightarrow>
      err \<in> Val ` set [''deleted'', ''deviceMismatch'', ''expired'', ''network'',
        ''server_error'', ''Missing license key or device ID'', ''Server configuration error'']"
    by (auto simp: check_session_def Let_def split: if_splits fetched.splits option.splits)
  have c: "fst (api_checkSession t ls) = Invalid code \<longrightarrow>
      code \<in> set [''no_session'', ''invalid_data'', ''invalid_session_structure'',
        ''session_expired'', ''subscription_expired'']"
    by (auto simp: api_checkSession_def split: option.splits stored.splits field.splits if_splits)
  have d: "findIndex (\<lambda>l. normalize (license.key l) = normalize (licenseKey r)) store = None \<and>
    is_post r \<and> truthy_str (licenseKey r) \<and> truthy_str (request.deviceId r) \<and>
    config_ok e \<and> get_ok e \<longrightarrow>
      validate_license e r (Collection store) = (Failure 200 (Val ''invalidLicense''), None) \<and>
      check_session e r (Collection store) = (Failure 200 (Val ''deleted''), None)"
    by (simp add: validate_license_def check_session_def Let_def)
  from a b c d show ?thesis by blast
qed

text \<open>
  An empty store: validate answers \<open>invalidLicense\<close>, checkSession \<open>deleted\<close>; an empty
  local storage reads as \<open>no_session\<close>.
\<close>

theorem failure_codes_witness:
  "validate_license env0 (post_request ''abc-1'' ''dev1'') (Collection [])
     = (Failure 200 (Val ''invalidLicense''), None) \<and>
   check_session env0 (post_request ''abc-1'' ''dev1'') (Collection [])
     = (Failure 200 (Val ''deleted''), None) \<and>
   fst (api_checkSession 1700000000000 empty_storage) = Invalid ''no_session''"
proof -
  have h1: "findIndex (\<lambda>l. normalize (license.key l) =
      normalize (licenseKey (post_request ''abc-1'' ''dev1''))) [] = None"
    by simp
  have h2: "is_post (post_request ''abc-1'' ''dev1'') \<and>
      truthy_str (licenseKey (post_request ''abc-1'' ''dev1'')) \<and>
      truthy_str (request.deviceId (post_request ''abc-1'' ''dev1''))"
    by (simp add: post_request_def)
  have h3: "config_ok env0 \<and> get_ok env0" by (simp add: env0_def)
  have h4: "fst (api_checkSession 1700000000000 empty_storage) = Invalid ''no_session''"
    by (simp add: api_checkSession_def empty_storage_def)
  from failure_codes[of env0 "post_request ''abc-1'' ''dev1''" "Collection []" 200
      "Val ''invalidLicense''" None 1700000000000 empty_storage "''no_session''" "[]"]
    h1 h2 h3 h4
  show ?thesis by blast
qed

section \<open>C10: the remaining days shown by the client\<close>

lemma ceil_div_ceiling: "0 < b \<Longrightarrow> ceil_div a b = \<lceil>real_of_int a / real_of_int b\<rceil>"
proof -
  assume b: "0 < b"
  have "\<lceil>real_of_int a / real_of_int b\<rceil> = - \<lfloor>- (real_of_int a / real_of_int b)\<rfloor>"
    by (simp add: ceiling_def)
  also have "- (real_of_int a / real_of_int b) = real_of_int (- a) / real_of_int b" by simp
  also have "\<lfloor>real_of_int (- a) / real_of_int b\<rfloor> = (- a) div b"
    by (rule floor_divide_of_int_eq)
  finally show ?thesis by (simp add: ceil_div_def)
qed

lemma ceil_div_day: "ceil_div a MS_PER_DAY = \<lceil>real_of_int a / 86400000\<rceil>"
  using ceil_div_ceiling[of MS_PER_DAY a] by (simp add: MS_PER_DAY_def)

text \<open>
  C10. For every value of \<open>expiresAt\<close>, \<open>getRemainingDays\<close> returns a number that is not
  negative: for a value that denotes the instant \<open>expiry\<close> it is the ceiling of
  \<open>(expiry - now) / 1 day\<close> when that is positive and 0 otherwise, and for a value that
  is no date it is 0.
\<close>

theorem remaining_days_clamped:
  "0 \<le> getRemainingDays x t \<and>
   (date_of x = None \<longrightarrow> getRemainingDays x t = 0) \<and>
   (\<forall>expiry. date_of x = Some expiry \<longrightarrow>
      getRemainingDays x t =
        (if 0 < \<lceil>real_of_int (expiry - t) / 86400000\<rceil>
         then \<lceil>real_of_int (expiry - t) / 86400000\<rceil> else 0))"
  by (auto simp: getRemainingDays_def Let_def ceil_div_day split: option.splits)

text \<open>
  Thirty days and one millisecond ahead gives 31; a license that expired long ago
  gives 0.
\<close>

theorem remaining_days_clamped_witness:
  "date_of (Val (Iso 1702592000001)) = Some 1702592000001 \<and>
   getRemainingDays (Val (Iso 1702592000001)) 1700000000000 = 31 \<and>
   getRemainingDays (Val (Iso 1600000000000)) 1700000000000 = 0 \<and>
   date_of Absent = None \<and> getRemainingDays Absent 1700000000000 = 0"
  using remaining_days_clamped[of "Val (Iso 1702592000001)" 1700000000000]
    remaining_days_clamped[of "Val (Iso 1600000000000)" 1700000000000]
    remaining_days_clamped[of Absent 1700000000000]
  by simp

end
